theory Spec2Isabelle
  imports Main
begin

section \<open>Text and buffers\<close>

text \<open>
  The child-process utilities of the extension (\<^verbatim>\<open>spawnAsync\<close>, \<^verbatim>\<open>spawnStreamAsync\<close>,
  \<^verbatim>\<open>bufferToString\<close>, \<^verbatim>\<open>fixPathForMacIfNeeded\<close>) are embedded below.

  Text is a \<^typ>\<open>string\<close>, a list of 8-bit characters, and a Node \<^verbatim>\<open>Buffer\<close> is a list of
  bytes of fixed length. The model covers text of single-byte characters, for which
  \<^verbatim>\<open>chunk.toString()\<close>, \<^verbatim>\<open>buffer.toString()\<close> and the UTF-8 encoding done by
  \<^verbatim>\<open>Buffer.write\<close> are the identity, and \<^verbatim>\<open>string.length\<close> is the length of the list.
\<close>

type_synonym buffer = "char list"

abbreviation TAB :: char where "TAB \<equiv> CHR 0x09"
abbreviation LF :: char where "LF \<equiv> CHR 0x0A"
abbreviation CR :: char where "CR \<equiv> CHR 0x0D"

subsection \<open>bufferToString\<close>

text \<open>
  \<^verbatim>\<open>buffer.toString().replace(/[\x00-\x09\x0B-\x0C\x0E-\x1F]|\r?\n$/g, '')\<close>

  \<open>isControl\<close> is the character class, the first alternative of the pattern.
\<close>

definition isControl :: "char \<Rightarrow> bool" where
  "isControl c =
     (let n = (of_char c :: nat)
      in n \<le> 0x09 \<or> (0x0B \<le> n \<and> n \<le> 0x0C) \<or> (0x0E \<le> n \<and> n \<le> 0x1F))"

text \<open>
  A global replace scans the text from the left. At each position the alternatives are
  tried in order: a character of the class is dropped and the scan goes on behind it;
  otherwise \<^verbatim>\<open>\r?\n$\<close> matches only when the rest of the text is exactly CR LF or exactly
  LF (there is no \<^verbatim>\<open>m\<close> flag, so \<^verbatim>\<open>$\<close> is the end of the whole text), and the match is
  dropped; otherwise the character is kept.
\<close>

fun replaceControl :: "string \<Rightarrow> string" where
  "replaceControl [] = []"
| "replaceControl (c # cs) =
     (if isControl c then replaceControl cs
      else if c = CR \<and> cs = [LF] then []
      else if c = LF \<and> cs = [] then []
      else c # replaceControl cs)"

definition bufferToString :: "buffer \<Rightarrow> string" where
  "bufferToString buffer = replaceControl buffer"

section \<open>Messages\<close>

text \<open>\<^verbatim>\<open>String(n)\<close> of an integer: its decimal digits, with a minus sign when negative.\<close>

fun digitsOf :: "nat \<Rightarrow> string" where
  "digitsOf n =
     (if n < 10 then [''0123456789'' ! n]
      else digitsOf (n div 10) @ [''0123456789'' ! (n mod 10)])"

declare digitsOf.simps [simp del]

definition numberToString :: "int \<Rightarrow> string" where
  "numberToString i =
     (if i < 0 then CHR ''-'' # digitsOf (nat (- i)) else digitsOf (nat i))"

definition isDigit :: "char \<Rightarrow> bool" where
  "isDigit c = (48 \<le> (of_char c :: nat) \<and> (of_char c :: nat) \<le> 57)"

text \<open>
  Modelled from the spec: the substitution done by \<^verbatim>\<open>localize\<close>, whose module
  \<^verbatim>\<open>../localize\<close> is not among the sources. The spec has the messages name the arguments
  of the call; here each placeholder \<^verbatim>\<open>{i}\<close> (one digit) of the message is replaced by the
  \<open>i\<close>-th argument, in one pass over the message, and stays when there is no such argument.
\<close>

fun format :: "string \<Rightarrow> string list \<Rightarrow> string" where
  "format (a # b # c # rest) args =
     (if a = CHR ''{'' \<and> isDigit b \<and> c = CHR ''}'' \<and> of_char b - 48 < length args
      then args ! (of_char b - 48) @ format rest args
      else a # format (b # c # rest) args)"
| "format s args = s"

text \<open>
  Modelled from the spec: \<^verbatim>\<open>localize(key, message, ...args)\<close>, imported from
  \<^verbatim>\<open>../localize\<close>, which is not among the sources. It returns the default message given at
  the call with its arguments substituted; the key selects no translation.
\<close>

definition localize :: "string \<Rightarrow> string \<Rightarrow> string list \<Rightarrow> string" where
  "localize key message args = format message args"

text \<open>
  The message of a non-zero exit, lines 59 and 162:
  \<^verbatim>\<open>localize('vscode-docker.utils.spawn.exited', 'Process \'{0}\' exited with code {1}',
     command.length > 50 ? `${command.substring(0, 50)}...` : command, code)\<close>
\<close>

definition commandText :: "string \<Rightarrow> string" where
  "commandText command =
     (if length command > 50 then take 50 command @ ''...'' else command)"

definition exitedMessage :: "string \<Rightarrow> int \<Rightarrow> string" where
  "exitedMessage command code =
     localize ''vscode-docker.utils.spawn.exited'' ''Process '{0}' exited with code {1}''
       [commandText command, numberToString code]"

text \<open>
  The part appended for captured stderr, lines 62 and 164:
  \<^verbatim>\<open>localize('vscode-docker.utils.spawn.exitedError', '\nError: {0}', bufferToString(...))\<close>
\<close>

definition exitedErrorMessage :: "buffer \<Rightarrow> string" where
  "exitedErrorMessage buffer =
     localize ''vscode-docker.utils.spawn.exitedError'' (LF # ''Error: {0}'')
       [bufferToString buffer]"

section \<open>Processes as event sequences\<close>

text \<open>
  A run of the child process is the sequence of events delivered to the listeners that
  the promise executor registers: \<^verbatim>\<open>'data'\<close> on stdout and stderr, the cancellation token
  firing, and \<^verbatim>\<open>'error'\<close> and \<^verbatim>\<open>'close'\<close> of the process. \<^verbatim>\<open>'close'\<close> carries the exit code
  (\<^verbatim>\<open>null\<close>, here \<open>None\<close>, when a signal ended the process) and the signal. The error of
  an \<^verbatim>\<open>'error'\<close> event is the platform's and stays opaque (\<open>'e\<close>).
\<close>

datatype 'e event =
    StdoutData string
  | StderrData string
  | CancellationRequested
  | ErrorEvent 'e
  | CloseEvent "int option" "string option"

text \<open>
  What the promise is rejected with: \<^verbatim>\<open>new UserCancelledError()\<close>, the \<^verbatim>\<open>ExecError\<close> built
  in the close handler (\<^verbatim>\<open>Error & { code, signal, stdErrHandled }\<close>, its fields here
  \<open>execMessage\<close>, \<open>execCode\<close>, \<open>execSignal\<close>, \<open>execStdErrHandled\<close>), or the error of the
  \<^verbatim>\<open>'error'\<close> event.
\<close>

datatype 'e rejection =
    UserCancelledError
  | ExecError (execMessage: string) (execCode: int) (execSignal: "string option")
      (execStdErrHandled: bool)
  | PlatformError 'e

datatype 'e outcome = Resolved | Rejected "'e rejection"

text \<open>
  The state shared by both functions: the promise (\<open>None\<close> while pending), the token's
  \<^verbatim>\<open>isCancellationRequested\<close>, the number of calls of \<^verbatim>\<open>cancellationListener.dispose()\<close> and
  of \<^verbatim>\<open>subprocess.kill()\<close>, and the arguments the callbacks were called with, in order.
\<close>

record 'e proc_state =
  promise :: "'e outcome option"
  isCancellationRequested :: bool
  disposeCalls :: nat
  killCalls :: nat
  onStdoutCalls :: "string list"
  onStderrCalls :: "string list"

text \<open>\<^verbatim>\<open>resolve\<close> and \<^verbatim>\<open>reject\<close> settle a pending promise and do nothing to a settled one.\<close>

definition settle :: "'e outcome \<Rightarrow> 'e outcome option \<Rightarrow> 'e outcome option" where
  "settle r p = (case p of None \<Rightarrow> Some r | Some q \<Rightarrow> Some q)"

text \<open>
  \<^verbatim>\<open>if (cancellationListener) { cancellationListener.dispose(); }\<close>: the listener exists
  exactly when a token was supplied (lines 116 and 208; the executor has run to its end
  before any event is delivered).
\<close>

definition disposeListener ::
  "bool \<Rightarrow> ('e, 'a) proc_state_scheme \<Rightarrow> ('e, 'a) proc_state_scheme" where
  "disposeListener token st =
     (if token then st\<lparr>disposeCalls := disposeCalls st + 1\<rparr> else st)"

text \<open>
  The token fires: its flag is set, and the listener registered by
  \<^verbatim>\<open>token.onCancellationRequested(() => subprocess.kill())\<close> runs unless it was disposed.
\<close>

definition onCancellationRequested ::
  "bool \<Rightarrow> ('e, 'a) proc_state_scheme \<Rightarrow> ('e, 'a) proc_state_scheme" where
  "onCancellationRequested token st =
     (if token
      then (let st1 = st\<lparr>isCancellationRequested := True\<rparr>
            in if disposeCalls st1 = 0 then st1\<lparr>killCalls := killCalls st1 + 1\<rparr> else st1)
      else st)"

text \<open>The \<^verbatim>\<open>'error'\<close> handler, lines 42-48 and 145-151.\<close>

definition onError ::
  "bool \<Rightarrow> 'e \<Rightarrow> ('e, 'a) proc_state_scheme \<Rightarrow> ('e, 'a) proc_state_scheme" where
  "onError token err st =
     (let st1 = disposeListener token st
      in st1\<lparr>promise := settle (Rejected (PlatformError err)) (promise st1)\<rparr>)"

subsection \<open>spawnAsync\<close>

text \<open>
  \<^verbatim>\<open>Buffer.write(string, offset)\<close> of Node: a \<^verbatim>\<open>RangeError\<close> (\<open>None\<close>) when the offset is
  beyond the buffer; otherwise as many bytes of the text as fit behind the offset are
  written over the buffer's bytes there, and their number is returned.
\<close>

definition bufferWrite :: "buffer \<Rightarrow> string \<Rightarrow> nat \<Rightarrow> (buffer \<times> nat) option" where
  "bufferWrite buf data offset =
     (if offset > length buf then None
      else (let n = min (length data) (length buf - offset)
            in Some (take offset buf @ take n data @ drop (offset + n) buf, n)))"

text \<open>
  The state of \<^verbatim>\<open>spawnAsync\<close> adds the two caller-supplied buffers (\<open>None\<close> when not
  supplied; two objects, as in \<^verbatim>\<open>execAsync\<close>, which allocates one for each stream), the two
  write cursors, and whether a \<^verbatim>\<open>'data'\<close> handler threw.
\<close>

record 'e spawn_state = "'e proc_state" +
  stdoutBuffer :: "buffer option"
  stderrBuffer :: "buffer option"
  stdoutBytesWritten :: nat
  stderrBytesWritten :: nat
  uncaughtException :: bool

text \<open>The stdout \<^verbatim>\<open>'data'\<close> listener, lines 84-98; \<open>onStdout\<close> says whether the callback was supplied.\<close>

definition onStdoutData :: "bool \<Rightarrow> string \<Rightarrow> 'e spawn_state \<Rightarrow> 'e spawn_state" where
  "onStdoutData onStdout data st =
     (if onStdout \<or> stdoutBuffer st \<noteq> None
      then (let st1 = (if onStdout then st\<lparr>onStdoutCalls := onStdoutCalls st @ [data]\<rparr> else st)
            in case stdoutBuffer st1 of
                 None \<Rightarrow> st1
               | Some buf \<Rightarrow>
                   (case bufferWrite buf data (stdoutBytesWritten st1) of
                      None \<Rightarrow> st1\<lparr>uncaughtException := True\<rparr>
                    | Some (buf', n) \<Rightarrow>
                        st1\<lparr>stdoutBuffer := Some buf',
                            stdoutBytesWritten := stdoutBytesWritten st1 + n\<rparr>))
      else st)"

text \<open>The stderr \<^verbatim>\<open>'data'\<close> listener, lines 100-114.\<close>

definition onStderrData :: "bool \<Rightarrow> string \<Rightarrow> 'e spawn_state \<Rightarrow> 'e spawn_state" where
  "onStderrData onStderr data st =
     (if onStderr \<or> stderrBuffer st \<noteq> None
      then (let st1 = (if onStderr then st\<lparr>onStderrCalls := onStderrCalls st @ [data]\<rparr> else st)
            in case stderrBuffer st1 of
                 None \<Rightarrow> st1
               | Some buf \<Rightarrow>
                   (case bufferWrite buf data (stderrBytesWritten st1) of
                      None \<Rightarrow> st1\<lparr>uncaughtException := True\<rparr>
                    | Some (buf', n) \<Rightarrow>
                        st1\<lparr>stderrBuffer := Some buf',
                            stderrBytesWritten := stderrBytesWritten st1 + n\<rparr>))
      else st)"

text \<open>
  What the \<^verbatim>\<open>'close'\<close> handler of \<^verbatim>\<open>spawnAsync\<close> settles the promise with, lines 55-74.
  \<^verbatim>\<open>else if (code)\<close> holds for a number other than zero; \<^verbatim>\<open>null\<close> and \<open>0\<close> are falsy.
\<close>

definition spawnCloseOutcome ::
  "string \<Rightarrow> bool \<Rightarrow> bool \<Rightarrow> 'e spawn_state \<Rightarrow> int option \<Rightarrow> string option \<Rightarrow> 'e outcome" where
  "spawnCloseOutcome command onStderr token st code signal =
     (if token \<and> isCancellationRequested st then Rejected UserCancelledError
      else (case code of
              None \<Rightarrow> Resolved
            | Some n \<Rightarrow>
                if n = 0 then Resolved
                else (let errorMessage = exitedMessage command n;
                          errorMessage = (case stderrBuffer st of
                                            None \<Rightarrow> errorMessage
                                          | Some buf \<Rightarrow> errorMessage @ exitedErrorMessage buf)
                      in Rejected (ExecError errorMessage n signal onStderr))))"

definition spawnOnClose ::
  "string \<Rightarrow> bool \<Rightarrow> bool \<Rightarrow> int option \<Rightarrow> string option \<Rightarrow> 'e spawn_state \<Rightarrow> 'e spawn_state" where
  "spawnOnClose command onStderr token code signal st =
     (let st1 = disposeListener token st
      in st1\<lparr>promise := settle (spawnCloseOutcome command onStderr token st1 code signal) (promise st1)\<rparr>)"

text \<open>
  One event delivered to the listeners of \<^verbatim>\<open>spawnAsync\<close>. The arguments are those of the
  source that the handlers read: the command, whether \<^verbatim>\<open>onStdout\<close> and \<^verbatim>\<open>onStderr\<close> were
  supplied, and whether a token was.
\<close>

fun spawnStep ::
  "string \<Rightarrow> bool \<Rightarrow> bool \<Rightarrow> bool \<Rightarrow> 'e spawn_state \<Rightarrow> 'e event \<Rightarrow> 'e spawn_state" where
  "spawnStep command onStdout onStderr token st (StdoutData data) = onStdoutData onStdout data st"
| "spawnStep command onStdout onStderr token st (StderrData data) = onStderrData onStderr data st"
| "spawnStep command onStdout onStderr token st CancellationRequested = onCancellationRequested token st"
| "spawnStep command onStdout onStderr token st (ErrorEvent err) = onError token err st"
| "spawnStep command onStdout onStderr token st (CloseEvent code signal) =
     spawnOnClose command onStderr token code signal st"

text \<open>
  The state when the executor has run: promise pending, cursors at 0, the buffers as the
  caller passed them. A token is \<open>Some b\<close> with \<open>b\<close> its \<^verbatim>\<open>isCancellationRequested\<close> at the
  call, or \<open>None\<close> when no token was supplied.
\<close>

definition spawnInit :: "buffer option \<Rightarrow> buffer option \<Rightarrow> bool option \<Rightarrow> 'e spawn_state" where
  "spawnInit stdoutBuf stderrBuf token =
     \<lparr>promise = None,
      isCancellationRequested = (case token of None \<Rightarrow> False | Some b \<Rightarrow> b),
      disposeCalls = 0, killCalls = 0, onStdoutCalls = [], onStderrCalls = [],
      stdoutBuffer = stdoutBuf, stderrBuffer = stderrBuf,
      stdoutBytesWritten = 0, stderrBytesWritten = 0, uncaughtException = False\<rparr>"

text \<open>
  \<^verbatim>\<open>spawnAsync(command, options, onStdout, stdoutBuffer, onStderr, stderrBuffer, token)\<close> run
  against the events of its process; the promise of the final state is its result.
\<close>

definition spawnAsync ::
  "string \<Rightarrow> bool \<Rightarrow> buffer option \<Rightarrow> bool \<Rightarrow> buffer option \<Rightarrow> bool option \<Rightarrow> 'e event list
     \<Rightarrow> 'e spawn_state" where
  "spawnAsync command onStdout stdoutBuf onStderr stderrBuf token events =
     foldl (spawnStep command onStdout onStderr (token \<noteq> None))
       (spawnInit stdoutBuf stderrBuf token) events"

subsection \<open>spawnStreamAsync\<close>

text \<open>The state of \<^verbatim>\<open>spawnStreamAsync\<close> adds \<^verbatim>\<open>errorChunks\<close>.\<close>

record 'e stream_state = "'e proc_state" +
  errorChunks :: "buffer list"

text \<open>The stdout \<^verbatim>\<open>'data'\<close> listener, lines 185-193, and the stderr one, lines 195-206.\<close>

definition streamOnStdoutData :: "bool \<Rightarrow> buffer \<Rightarrow> 'e stream_state \<Rightarrow> 'e stream_state" where
  "streamOnStdoutData onStdout chunk st =
     (if onStdout
      then (if onStdout then st\<lparr>onStdoutCalls := onStdoutCalls st @ [chunk]\<rparr> else st)
      else st)"

definition streamOnStderrData :: "bool \<Rightarrow> buffer \<Rightarrow> 'e stream_state \<Rightarrow> 'e stream_state" where
  "streamOnStderrData onStderr chunk st =
     (if onStderr
      then (let st1 = st\<lparr>errorChunks := errorChunks st @ [chunk]\<rparr>
            in if onStderr then st1\<lparr>onStderrCalls := onStderrCalls st1 @ [chunk]\<rparr> else st1)
      else st)"

text \<open>
  What the \<^verbatim>\<open>'close'\<close> handler of \<^verbatim>\<open>spawnStreamAsync\<close> settles the promise with, lines
  158-175; \<^verbatim>\<open>Buffer.concat(errorChunks)\<close> is \<^term>\<open>concat\<close>.
\<close>

definition streamCloseOutcome ::
  "string \<Rightarrow> bool \<Rightarrow> 'e stream_state \<Rightarrow> int option \<Rightarrow> string option \<Rightarrow> 'e outcome" where
  "streamCloseOutcome command token st code signal =
     (if token \<and> isCancellationRequested st then Rejected UserCancelledError
      else (case code of
              None \<Rightarrow> Resolved
            | Some n \<Rightarrow>
                if n = 0 then Resolved
                else (let errorMessage = exitedMessage command n;
                          errorMessage = errorMessage @ exitedErrorMessage (concat (errorChunks st))
                      in Rejected (ExecError errorMessage n signal False))))"

definition streamOnClose ::
  "string \<Rightarrow> bool \<Rightarrow> int option \<Rightarrow> string option \<Rightarrow> 'e stream_state \<Rightarrow> 'e stream_state" where
  "streamOnClose command token code signal st =
     (let st1 = disposeListener token st
      in st1\<lparr>promise := settle (streamCloseOutcome command token st1 code signal) (promise st1)\<rparr>)"

fun streamStep ::
  "string \<Rightarrow> bool \<Rightarrow> bool \<Rightarrow> bool \<Rightarrow> 'e stream_state \<Rightarrow> 'e event \<Rightarrow> 'e stream_state" where
  "streamStep command onStdout onStderr token st (StdoutData chunk) = streamOnStdoutData onStdout chunk st"
| "streamStep command onStdout onStderr token st (StderrData chunk) = streamOnStderrData onStderr chunk st"
| "streamStep command onStdout onStderr token st CancellationRequested = onCancellationRequested token st"
| "streamStep command onStdout onStderr token st (ErrorEvent err) = onError token err st"
| "streamStep command onStdout onStderr token st (CloseEvent code signal) =
     streamOnClose command token code signal st"

definition streamInit :: "bool option \<Rightarrow> 'e stream_state" where
  "streamInit token =
     \<lparr>promise = None,
      isCancellationRequested = (case token of None \<Rightarrow> False | Some b \<Rightarrow> b),
      disposeCalls = 0, killCalls = 0, onStdoutCalls = [], onStderrCalls = [],
      errorChunks = []\<rparr>"

text \<open>\<^verbatim>\<open>spawnStreamAsync(command, options, onStdout, onStderr, token)\<close> run against its events.\<close>

definition spawnStreamAsync ::
  "string \<Rightarrow> bool \<Rightarrow> bool \<Rightarrow> bool option \<Rightarrow> 'e event list \<Rightarrow> 'e stream_state" where
  "spawnStreamAsync command onStdout onStderr token events =
     foldl (streamStep command onStdout onStderr (token \<noteq> None)) (streamInit token) events"

section \<open>The launch environment\<close>

text \<open>
  \<^verbatim>\<open>/(?<=^|:)\/usr\/local\/bin(?=$|:)/i.test(path)\<close>

  With the \<^verbatim>\<open>i\<close> flag two characters match when their canonical forms, the upper-case
  ones, are equal; on the characters of the pattern that is the folding of ASCII letters.
  The canonical form is given by its character code.
\<close>

definition canonicalize :: "char \<Rightarrow> nat" where
  "canonicalize c =
     (if 97 \<le> (of_char c :: nat) \<and> (of_char c :: nat) \<le> 122
      then (of_char c :: nat) - 32 else of_char c)"

text \<open>
  The pattern at one position whose look-behind holds: the next 14 characters are
  \<^verbatim>\<open>/usr/local/bin\<close> up to case, and the look-ahead sees the end of the text or a colon.
\<close>

definition matchHere :: "string \<Rightarrow> bool" where
  "matchHere s =
     (map canonicalize (take 14 s) = map canonicalize ''/usr/local/bin'' \<and>
      (case drop 14 s of [] \<Rightarrow> True | c # _ \<Rightarrow> c = CHR '':''))"

text \<open>
  \<^verbatim>\<open>test\<close> tries the positions from the left; \<open>lookBehind\<close> says whether the position is
  the start of the text or follows a colon.
\<close>

fun searchFrom :: "bool \<Rightarrow> string \<Rightarrow> bool" where
  "searchFrom lookBehind [] = False"
| "searchFrom lookBehind (c # cs) =
     ((lookBehind \<and> matchHere (c # cs)) \<or> searchFrom (c = CHR '':'') cs)"

definition pathRegexTest :: "string \<Rightarrow> bool" where
  "pathRegexTest path = searchFrom True path"

text \<open>
  A JavaScript value that is a string or \<^verbatim>\<open>undefined\<close>: its conversion to a string (by
  \<^verbatim>\<open>test\<close> and by a template literal), and \<^verbatim>\<open>a || b\<close>, which takes \<open>b\<close> when \<open>a\<close> is
  \<^verbatim>\<open>undefined\<close> or the empty string.
\<close>

definition jsToString :: "string option \<Rightarrow> string" where
  "jsToString v = (case v of None \<Rightarrow> ''undefined'' | Some s \<Rightarrow> s)"

definition jsOr :: "string option \<Rightarrow> string option \<Rightarrow> string option" where
  "jsOr a b = (case a of None \<Rightarrow> b | Some s \<Rightarrow> if s = [] then b else Some s)"

text \<open>
  Environments are objects, and \<^verbatim>\<open>options.env\<close> is a reference to one: the function
  assigns to \<^verbatim>\<open>options.env.PATH\<close> in place. The objects live in a store, by address;
  \<^verbatim>\<open>process.env\<close> is the object at address 0, and \<^verbatim>\<open>{ ...process.env }\<close> is a copy of it at
  the next free address. The output channel of the extension is the list of its lines.
\<close>

type_synonym env = "string \<rightharpoonup> string"

record launch_state =
  envObjects :: "nat \<Rightarrow> env"
  nextObject :: nat
  outputChannel :: "string list"

definition processEnv :: nat where
  "processEnv = 0"

record spawn_options =
  env :: "nat option"
  shell :: bool
  stdin :: "string option"

text \<open>
  \<open>effectivePath\<close> is the text the pattern is tested on, line 267:
  \<^verbatim>\<open>options?.env?.PATH || process.env.PATH!\<close>.

  \<^verbatim>\<open>fixPathForMacIfNeeded(options)\<close>, lines 257-279. \<open>isWindows\<close> is the constant imported
  from \<^verbatim>\<open>../constants\<close>, which is not among the sources, and is taken as a parameter.
  The function is called with an object (line 35), so \<^verbatim>\<open>options ?? {}\<close> is \<open>options\<close>.
\<close>

definition effectivePath :: "spawn_options \<Rightarrow> launch_state \<Rightarrow> string" where
  "effectivePath options w =
     jsToString
       (jsOr (case env options of None \<Rightarrow> None | Some a \<Rightarrow> envObjects w a ''PATH'')
             (envObjects w processEnv ''PATH''))"

definition fixPathForMacIfNeeded ::
  "bool \<Rightarrow> spawn_options \<Rightarrow> launch_state \<Rightarrow> spawn_options \<times> launch_state" where
  "fixPathForMacIfNeeded isWindows options w =
     (if isWindows then (options, w)
      else if pathRegexTest (effectivePath options w)
      then (options, w)
      else (let (a, w1) =
                  (case env options of
                     Some a \<Rightarrow> (a, w)
                   | None \<Rightarrow>
                       (nextObject w,
                        w\<lparr>envObjects := (envObjects w)(nextObject w := envObjects w processEnv),
                          nextObject := nextObject w + 1\<rparr>));
                options1 = options\<lparr>env := Some a\<rparr>;
                w2 = w1\<lparr>outputChannel := outputChannel w1 @
                       [localize ''vscode-docker.utils.spawn.fixedPath''
                          ''WARNING: Adding '/usr/local/bin' to the PATH because it is missing.'' []]\<rparr>;
                newPath = jsToString (envObjects w2 a ''PATH'') @ '':/usr/local/bin''
            in (options1,
                w2\<lparr>envObjects := (envObjects w2)(a := (envObjects w2 a)(''PATH'' \<mapsto> newPath))\<rparr>)))"

text \<open>
  The options \<^verbatim>\<open>spawnAsync\<close> hands to \<^verbatim>\<open>cp.spawn\<close>, lines 35-40: the caller's or an empty
  object, with the shell switched on, after the fix of the path.
\<close>

definition spawnAsyncOptions ::
  "bool \<Rightarrow> spawn_options option \<Rightarrow> launch_state \<Rightarrow> spawn_options \<times> launch_state" where
  "spawnAsyncOptions isWindows options w =
     (let options1 = (case options of
                        None \<Rightarrow> \<lparr>env = None, shell = False, stdin = None\<rparr>
                      | Some opts \<Rightarrow> opts);
          options2 = options1\<lparr>shell := True\<rparr>
      in fixPathForMacIfNeeded isWindows options2 w)"

section \<open>Reading a run\<close>

text \<open>
  The vocabulary of the statements below. An event is terminal when a handler that
  settles the promise runs for it.
\<close>

fun isTerminal :: "'e event \<Rightarrow> bool" where
  "isTerminal (ErrorEvent err) = True"
| "isTerminal (CloseEvent code signal) = True"
| "isTerminal ev = False"

text \<open>The chunks a stream delivered, in the order of their arrival.\<close>

fun stdoutChunk :: "'e event \<Rightarrow> string list" where
  "stdoutChunk (StdoutData data) = [data]"
| "stdoutChunk ev = []"

fun stderrChunk :: "'e event \<Rightarrow> string list" where
  "stderrChunk (StderrData data) = [data]"
| "stderrChunk ev = []"

definition stdoutChunks :: "'e event list \<Rightarrow> string list" where
  "stdoutChunks events = concat (map stdoutChunk events)"

definition stderrChunks :: "'e event list \<Rightarrow> string list" where
  "stderrChunks events = concat (map stderrChunk events)"

text \<open>
  Whether cancellation is requested once the events were delivered: the token was
  supplied, and was cancelled at the call or has fired since.
\<close>

definition cancellationRequestedBy :: "bool option \<Rightarrow> 'e event list \<Rightarrow> bool" where
  "cancellationRequestedBy token events =
     (case token of None \<Rightarrow> False | Some b \<Rightarrow> b \<or> CancellationRequested \<in> set events)"

text \<open>
  A buffer after the text was written into it from its start: the text up to the
  capacity, then what the buffer held behind it.
\<close>

definition captured :: "buffer \<Rightarrow> string \<Rightarrow> buffer" where
  "captured buf text = take (length buf) text @ drop (length text) buf"

text \<open>
  The buffers and cursors of a state agree with the texts \<open>out\<close> and \<open>err\<close> written so
  far into the buffers the caller passed, and no handler threw.
\<close>

definition capturedState ::
  "buffer option \<Rightarrow> buffer option \<Rightarrow> string \<Rightarrow> string \<Rightarrow> 'e spawn_state \<Rightarrow> bool" where
  "capturedState stdoutBuf stderrBuf out err st \<longleftrightarrow>
     stdoutBuffer st = map_option (\<lambda>b. captured b out) stdoutBuf \<and>
     stdoutBytesWritten st =
       (case stdoutBuf of None \<Rightarrow> 0 | Some b \<Rightarrow> min (length b) (length out)) \<and>
     stderrBuffer st = map_option (\<lambda>b. captured b err) stderrBuf \<and>
     stderrBytesWritten st =
       (case stderrBuf of None \<Rightarrow> 0 | Some b \<Rightarrow> min (length b) (length err)) \<and>
     \<not> uncaughtException st"

text \<open>The kind of an outcome: what remains when the message of an \<open>ExecError\<close> is left out.\<close>

datatype 'e outcome_kind =
    Succeeded
  | Cancelled
  | NonZeroExit int "string option" bool
  | LaunchError 'e

fun kindOf :: "'e outcome \<Rightarrow> 'e outcome_kind" where
  "kindOf Resolved = Succeeded"
| "kindOf (Rejected UserCancelledError) = Cancelled"
| "kindOf (Rejected (ExecError msg code signal handled)) = NonZeroExit code signal handled"
| "kindOf (Rejected (PlatformError err)) = LaunchError err"

text \<open>
  The reading of the pattern in words: the path, cut at its colons, has a segment equal
  to \<^verbatim>\<open>/usr/local/bin\<close> up to the case of its letters.
\<close>

fun splitColon :: "string \<Rightarrow> string list" where
  "splitColon [] = [[]]"
| "splitColon (c # cs) =
     (if c = CHR '':'' then [] # splitColon cs
      else (case splitColon cs of
              [] \<Rightarrow> [[c]]
            | seg # segs \<Rightarrow> (c # seg) # segs))"

definition hasUsrLocalBinSegment :: "string \<Rightarrow> bool" where
  "hasUsrLocalBinSegment path =
     (\<exists>seg \<in> set (splitColon path). map canonicalize seg = map canonicalize ''/usr/local/bin'')"

text \<open>
  A state for the examples: \<^verbatim>\<open>process.env\<close> at address 0 and an environment of a caller
  at address 1, both with a \<^verbatim>\<open>PATH\<close> that lacks \<^verbatim>\<open>/usr/local/bin\<close>.
\<close>

definition exampleState :: launch_state where
  "exampleState =
     \<lparr>envObjects = (\<lambda>a. Map.empty)
        (0 := [''PATH'' \<mapsto> ''/bin'', ''HOME'' \<mapsto> ''/root''],
         1 := [''PATH'' \<mapsto> ''/usr/bin'', ''FOO'' \<mapsto> ''1'']),
      nextObject = 2, outputChannel = []\<rparr>"

section \<open>Handlers and runs\<close>

lemma settle_simps [simp]: "settle r None = Some r" "settle r (Some q) = Some q"
  by (simp_all add: settle_def)

(* proc-level facts about handlers *)
lemma onError_fields [simp]:
  "promise (onError t e st) = settle (Rejected (PlatformError e)) (promise st)"
  "isCancellationRequested (onError t e st) = isCancellationRequested st"
  "disposeCalls (onError t e st) = (if t then disposeCalls st + 1 else disposeCalls st)"
  by (simp_all add: onError_def disposeListener_def Let_def)

lemma onCancellationRequested_fields [simp]:
  "promise (onCancellationRequested t st) = promise st"
  "isCancellationRequested (onCancellationRequested t st) = (t \<or> isCancellationRequested st)"
  "disposeCalls (onCancellationRequested t st) = disposeCalls st"
  by (simp_all add: onCancellationRequested_def Let_def)

lemma onStdoutData_fields [simp]:
  "promise (onStdoutData o1 d st) = promise st"
  "isCancellationRequested (onStdoutData o1 d st) = isCancellationRequested st"
  "disposeCalls (onStdoutData o1 d st) = disposeCalls st"
  "stderrBuffer (onStdoutData o1 d st) = stderrBuffer st"
  "stderrBytesWritten (onStdoutData o1 d st) = stderrBytesWritten st"
  by (simp_all add: onStdoutData_def Let_def split: option.splits prod.splits)

lemma onStderrData_fields [simp]:
  "promise (onStderrData o1 d st) = promise st"
  "isCancellationRequested (onStderrData o1 d st) = isCancellationRequested st"
  "disposeCalls (onStderrData o1 d st) = disposeCalls st"
  "stdoutBuffer (onStderrData o1 d st) = stdoutBuffer st"
  "stdoutBytesWritten (onStderrData o1 d st) = stdoutBytesWritten st"
  by (simp_all add: onStderrData_def Let_def split: option.splits prod.splits)

lemma spawnCloseOutcome_disposeListener [simp]:
  "spawnCloseOutcome c o2 t (disposeListener t' st) code sig = spawnCloseOutcome c o2 t st code sig"
  by (simp add: spawnCloseOutcome_def disposeListener_def Let_def split: option.splits)

lemma spawnOnClose_fields [simp]:
  "promise (spawnOnClose c o2 t code sig st) = settle (spawnCloseOutcome c o2 t st code sig) (promise st)"
  "isCancellationRequested (spawnOnClose c o2 t code sig st) = isCancellationRequested st"
  "disposeCalls (spawnOnClose c o2 t code sig st) = (if t then disposeCalls st + 1 else disposeCalls st)"
  "stdoutBuffer (spawnOnClose c o2 t code sig st) = stdoutBuffer st"
  "stderrBuffer (spawnOnClose c o2 t code sig st) = stderrBuffer st"
  by (simp_all add: spawnOnClose_def Let_def) (simp_all add: disposeListener_def)

lemma spawn_pending:
  "\<forall>ev \<in> set pre. \<not> isTerminal ev \<Longrightarrow>
   promise (foldl (spawnStep c o1 o2 t) st pre) = promise st"
proof (induction pre arbitrary: st)
  case Nil then show ?case by simp
next
  case (Cons ev pre)
  then show ?case by (cases ev) simp_all
qed

lemma spawn_settled:
  "promise st = Some r \<Longrightarrow> promise (foldl (spawnStep c o1 o2 t) st post) = Some r"
proof (induction post arbitrary: st)
  case Nil then show ?case by simp
next
  case (Cons ev post)
  then show ?case by (cases ev) simp_all
qed

lemma spawn_flag:
  "isCancellationRequested (foldl (spawnStep c o1 o2 t) st evs) =
     (isCancellationRequested st \<or> (t \<and> CancellationRequested \<in> set evs))"
proof (induction evs arbitrary: st)
  case Nil then show ?case by simp
next
  case (Cons ev evs)
  then show ?case by (cases ev) auto
qed

lemma spawn_dispose:
  "disposeCalls (foldl (spawnStep c o1 o2 t) st evs) =
     disposeCalls st + (if t then length (filter isTerminal evs) else 0)"
proof (induction evs arbitrary: st)
  case Nil then show ?case by simp
next
  case (Cons ev evs)
  then show ?case by (cases ev) auto
qed


lemma bufferWrite_fits:
  "k \<le> length b \<Longrightarrow>
   bufferWrite b d k =
     Some (take k b @ take (length b - k) d @ drop (k + length d) b, min (length d) (length b - k))"
  by (auto simp: bufferWrite_def Let_def min_def)

lemma captured_write:
  "bufferWrite (captured b0 text) d (min (length b0) (length text)) =
     Some (captured b0 (text @ d),
           min (length b0) (length (text @ d)) - min (length b0) (length text))"
proof (cases "length text \<le> length b0")
  case True
  then show ?thesis
    by (auto simp: bufferWrite_def captured_def Let_def min_def)
next
  case False
  then show ?thesis
    by (auto simp: bufferWrite_def captured_def Let_def min_def)
qed

lemma length_captured [simp]: "length (captured b text) = length b"
  by (auto simp: captured_def)

lemma onStderrData_captured:
  assumes "stderrBuffer st = map_option (\<lambda>b. captured b text) ob"
    and "stderrBytesWritten st = (case ob of None \<Rightarrow> 0 | Some b \<Rightarrow> min (length b) (length text))"
  shows "stderrBuffer (onStderrData o2 d st) = map_option (\<lambda>b. captured b (text @ d)) ob \<and>
         stderrBytesWritten (onStderrData o2 d st) =
           (case ob of None \<Rightarrow> 0 | Some b \<Rightarrow> min (length b) (length (text @ d))) \<and>
         uncaughtException (onStderrData o2 d st) = uncaughtException st"
proof (cases ob)
  case None
  with assms show ?thesis by (simp add: onStderrData_def)
next
  case (Some b)
  with assms show ?thesis
    by (simp add: onStderrData_def captured_write Let_def)
qed

lemma onStdoutData_captured:
  assumes "stdoutBuffer st = map_option (\<lambda>b. captured b text) ob"
    and "stdoutBytesWritten st = (case ob of None \<Rightarrow> 0 | Some b \<Rightarrow> min (length b) (length text))"
  shows "stdoutBuffer (onStdoutData o1 d st) = map_option (\<lambda>b. captured b (text @ d)) ob \<and>
         stdoutBytesWritten (onStdoutData o1 d st) =
           (case ob of None \<Rightarrow> 0 | Some b \<Rightarrow> min (length b) (length (text @ d))) \<and>
         uncaughtException (onStdoutData o1 d st) = uncaughtException st"
proof (cases ob)
  case None
  with assms show ?thesis by (simp add: onStdoutData_def)
next
  case (Some b)
  with assms show ?thesis
    by (simp add: onStdoutData_def captured_write Let_def)
qed

lemma other_fields [simp]:
  "stdoutBuffer (onError t e st) = stdoutBuffer st"
  "stderrBuffer (onError t e st) = stderrBuffer st"
  "stdoutBytesWritten (onError t e st) = stdoutBytesWritten st"
  "stderrBytesWritten (onError t e st) = stderrBytesWritten st"
  "uncaughtException (onError t e st) = uncaughtException st"
  "stdoutBuffer (onCancellationRequested t st) = stdoutBuffer st"
  "stderrBuffer (onCancellationRequested t st) = stderrBuffer st"
  "stdoutBytesWritten (onCancellationRequested t st) = stdoutBytesWritten st"
  "stderrBytesWritten (onCancellationRequested t st) = stderrBytesWritten st"
  "uncaughtException (onCancellationRequested t st) = uncaughtException st"
  "stdoutBytesWritten (spawnOnClose c o2 t code sig st) = stdoutBytesWritten st"
  "stderrBytesWritten (spawnOnClose c o2 t code sig st) = stderrBytesWritten st"
  "uncaughtException (spawnOnClose c o2 t code sig st) = uncaughtException st"
  by (simp_all add: onError_def onCancellationRequested_def spawnOnClose_def disposeListener_def Let_def)

lemma capturedState_step:
  assumes "capturedState ob1 ob2 out err st"
  shows "capturedState ob1 ob2 (out @ concat (stdoutChunk ev)) (err @ concat (stderrChunk ev))
           (spawnStep c o1 o2 t st ev)"
proof (cases ev)
  case (StdoutData d)
  with assms onStdoutData_captured[of st out ob1 o1 d] show ?thesis
    by (simp add: capturedState_def)
next
  case (StderrData d)
  with assms onStderrData_captured[of st err ob2 o2 d] show ?thesis
    by (simp add: capturedState_def)
qed (use assms in \<open>simp_all add: capturedState_def\<close>)

lemma capturedState_run:
  "capturedState ob1 ob2 out err st \<Longrightarrow>
   capturedState ob1 ob2 (out @ concat (stdoutChunks evs)) (err @ concat (stderrChunks evs))
     (foldl (spawnStep c o1 o2 t) st evs)"
proof (induction evs arbitrary: st out err)
  case Nil
  then show ?case by (simp add: stdoutChunks_def stderrChunks_def)
next
  case (Cons ev evs)
  from capturedState_step[OF Cons.prems, of ev c o1 o2 t]
  have "capturedState ob1 ob2 (out @ concat (stdoutChunk ev)) (err @ concat (stderrChunk ev))
          (spawnStep c o1 o2 t st ev)" .
  from Cons.IH[OF this] show ?case
    by (simp add: stdoutChunks_def stderrChunks_def)
qed

lemma captured_Nil [simp]: "captured b [] = b"
  by (simp add: captured_def)

lemma capturedState_init: "capturedState ob1 ob2 [] [] (spawnInit ob1 ob2 tok)"
  by (cases ob1; cases ob2) (simp_all add: capturedState_def spawnInit_def)

lemma spawnAsync_buffers:
  "capturedState ob1 ob2 (concat (stdoutChunks evs)) (concat (stderrChunks evs))
     (spawnAsync c o1 ob1 o2 ob2 tok evs)"
  using capturedState_run[OF capturedState_init, of ob1 ob2 evs c o1 o2 "tok \<noteq> None" tok]
  by (simp add: spawnAsync_def)

lemma streamCloseOutcome_disposeListener [simp]:
  "streamCloseOutcome c t (disposeListener t' st) code sig = streamCloseOutcome c t st code sig"
  by (simp add: streamCloseOutcome_def disposeListener_def Let_def split: option.splits)

lemma streamOnClose_fields [simp]:
  "promise (streamOnClose c t code sig st) = settle (streamCloseOutcome c t st code sig) (promise st)"
  "isCancellationRequested (streamOnClose c t code sig st) = isCancellationRequested st"
  "disposeCalls (streamOnClose c t code sig st) = (if t then disposeCalls st + 1 else disposeCalls st)"
  "errorChunks (streamOnClose c t code sig st) = errorChunks st"
  by (simp_all add: streamOnClose_def Let_def) (simp_all add: disposeListener_def)

lemma streamData_fields [simp]:
  "promise (streamOnStdoutData o1 d st) = promise st"
  "isCancellationRequested (streamOnStdoutData o1 d st) = isCancellationRequested st"
  "disposeCalls (streamOnStdoutData o1 d st) = disposeCalls st"
  "errorChunks (streamOnStdoutData o1 d st) = errorChunks st"
  "promise (streamOnStderrData o2 d st) = promise st"
  "isCancellationRequested (streamOnStderrData o2 d st) = isCancellationRequested st"
  "disposeCalls (streamOnStderrData o2 d st) = disposeCalls st"
  "errorChunks (streamOnStderrData o2 d st) = (if o2 then errorChunks st @ [d] else errorChunks st)"
  by (simp_all add: streamOnStdoutData_def streamOnStderrData_def Let_def)

lemma stream_other_fields [simp]:
  "errorChunks (onError t e st) = errorChunks st"
  "errorChunks (onCancellationRequested t st) = errorChunks st"
  by (simp_all add: onError_def onCancellationRequested_def disposeListener_def Let_def)

lemma stream_pending:
  "\<forall>ev \<in> set pre. \<not> isTerminal ev \<Longrightarrow>
   promise (foldl (streamStep c o1 o2 t) st pre) = promise st"
proof (induction pre arbitrary: st)
  case Nil then show ?case by simp
next
  case (Cons ev pre)
  then show ?case by (cases ev) simp_all
qed

lemma stream_settled:
  "promise st = Some r \<Longrightarrow> promise (foldl (streamStep c o1 o2 t) st post) = Some r"
proof (induction post arbitrary: st)
  case Nil then show ?case by simp
next
  case (Cons ev post)
  then show ?case by (cases ev) simp_all
qed

lemma stream_flag:
  "isCancellationRequested (foldl (streamStep c o1 o2 t) st evs) =
     (isCancellationRequested st \<or> (t \<and> CancellationRequested \<in> set evs))"
proof (induction evs arbitrary: st)
  case Nil then show ?case by simp
next
  case (Cons ev evs)
  then show ?case by (cases ev) auto
qed

lemma stream_dispose:
  "disposeCalls (foldl (streamStep c o1 o2 t) st evs) =
     disposeCalls st + (if t then length (filter isTerminal evs) else 0)"
proof (induction evs arbitrary: st)
  case Nil then show ?case by simp
next
  case (Cons ev evs)
  then show ?case by (cases ev) auto
qed

lemma stream_errorChunks:
  "errorChunks (foldl (streamStep c o1 o2 t) st evs) =
     errorChunks st @ (if o2 then stderrChunks evs else [])"
proof (induction evs arbitrary: st)
  case Nil then show ?case by (simp add: stderrChunks_def)
next
  case (Cons ev evs)
  then show ?case by (cases ev) (simp_all add: stderrChunks_def)
qed

lemma init_fields [simp]:
  "promise (spawnInit ob1 ob2 tok) = None"
  "isCancellationRequested (spawnInit ob1 ob2 tok) = (tok = Some True)"
  "disposeCalls (spawnInit ob1 ob2 tok) = 0"
  "promise (streamInit tok) = None"
  "isCancellationRequested (streamInit tok) = (tok = Some True)"
  "disposeCalls (streamInit tok) = 0"
  "errorChunks (streamInit tok) = []"
  by (auto simp: spawnInit_def streamInit_def split: option.splits)

lemma spawnAsync_close:
  assumes "\<forall>ev \<in> set pre. \<not> isTerminal ev"
  shows "promise (spawnAsync c o1 ob1 o2 ob2 tok (pre @ CloseEvent code sig # post)) =
         Some (spawnCloseOutcome c o2 (tok \<noteq> None) (spawnAsync c o1 ob1 o2 ob2 tok pre) code sig)"
proof -
  have pend: "promise (spawnAsync c o1 ob1 o2 ob2 tok pre) = None"
    using spawn_pending[OF assms] by (simp add: spawnAsync_def)
  then have "promise (spawnStep c o1 o2 (tok \<noteq> None) (spawnAsync c o1 ob1 o2 ob2 tok pre) (CloseEvent code sig)) =
    Some (spawnCloseOutcome c o2 (tok \<noteq> None) (spawnAsync c o1 ob1 o2 ob2 tok pre) code sig)"
    by simp
  from spawn_settled[OF this] show ?thesis
    by (simp add: spawnAsync_def)
qed

lemma spawnAsync_error:
  assumes "\<forall>ev \<in> set pre. \<not> isTerminal ev"
  shows "promise (spawnAsync c o1 ob1 o2 ob2 tok (pre @ ErrorEvent err # post)) =
         Some (Rejected (PlatformError err))"
proof -
  have pend: "promise (spawnAsync c o1 ob1 o2 ob2 tok pre) = None"
    using spawn_pending[OF assms] by (simp add: spawnAsync_def)
  then have "promise (spawnStep c o1 o2 (tok \<noteq> None) (spawnAsync c o1 ob1 o2 ob2 tok pre) (ErrorEvent err)) =
    Some (Rejected (PlatformError err))"
    by simp
  from spawn_settled[OF this] show ?thesis
    by (simp add: spawnAsync_def)
qed

lemma spawnAsync_flag:
  "isCancellationRequested (spawnAsync c o1 ob1 o2 ob2 tok pre) = cancellationRequestedBy tok pre"
  by (cases tok) (auto simp: spawnAsync_def spawn_flag cancellationRequestedBy_def)

lemma spawnStreamAsync_close:
  assumes "\<forall>ev \<in> set pre. \<not> isTerminal ev"
  shows "promise (spawnStreamAsync c o1 o2 tok (pre @ CloseEvent code sig # post)) =
         Some (streamCloseOutcome c (tok \<noteq> None) (spawnStreamAsync c o1 o2 tok pre) code sig)"
proof -
  have pend: "promise (spawnStreamAsync c o1 o2 tok pre) = None"
    using stream_pending[OF assms] by (simp add: spawnStreamAsync_def)
  then have "promise (streamStep c o1 o2 (tok \<noteq> None) (spawnStreamAsync c o1 o2 tok pre) (CloseEvent code sig)) =
    Some (streamCloseOutcome c (tok \<noteq> None) (spawnStreamAsync c o1 o2 tok pre) code sig)"
    by simp
  from stream_settled[OF this] show ?thesis
    by (simp add: spawnStreamAsync_def)
qed

lemma spawnStreamAsync_error:
  assumes "\<forall>ev \<in> set pre. \<not> isTerminal ev"
  shows "promise (spawnStreamAsync c o1 o2 tok (pre @ ErrorEvent err # post)) =
         Some (Rejected (PlatformError err))"
proof -
  have pend: "promise (spawnStreamAsync c o1 o2 tok pre) = None"
    using stream_pending[OF assms] by (simp add: spawnStreamAsync_def)
  then have "promise (streamStep c o1 o2 (tok \<noteq> None) (spawnStreamAsync c o1 o2 tok pre) (ErrorEvent err)) =
    Some (Rejected (PlatformError err))"
    by simp
  from stream_settled[OF this] show ?thesis
    by (simp add: spawnStreamAsync_def)
qed

lemma spawnStreamAsync_flag:
  "isCancellationRequested (spawnStreamAsync c o1 o2 tok pre) = cancellationRequestedBy tok pre"
  by (cases tok) (auto simp: spawnStreamAsync_def stream_flag cancellationRequestedBy_def)

lemma spawnStreamAsync_errorChunks:
  "errorChunks (spawnStreamAsync c o1 o2 tok evs) = (if o2 then stderrChunks evs else [])"
  by (simp add: spawnStreamAsync_def stream_errorChunks)

lemma cancelled_token: "cancellationRequestedBy tok pre \<Longrightarrow> tok \<noteq> None"
  by (cases tok) (simp_all add: cancellationRequestedBy_def)

lemma exitedMessage_eq:
  "exitedMessage command n =
     ''Process '' @ [CHR 0x27] @ commandText command @ [CHR 0x27] @ '' exited with code '' @ numberToString n"
  by (simp add: exitedMessage_def localize_def isDigit_def)

lemma exitedErrorMessage_eq: "exitedErrorMessage buf = LF # ''Error: '' @ bufferToString buf"
  by (simp add: exitedErrorMessage_def localize_def isDigit_def)

lemma spawnAsync_stderrBuffer:
  "stderrBuffer (spawnAsync c o1 ob1 o2 ob2 tok evs) =
     map_option (\<lambda>b. captured b (concat (stderrChunks evs))) ob2"
  using spawnAsync_buffers[of ob1 ob2 evs c o1 o2 tok] by (simp add: capturedState_def)

lemma kindOf_spawnCloseOutcome:
  "kindOf (spawnCloseOutcome c o2 t st code sig) =
     (if t \<and> isCancellationRequested st then Cancelled
      else case code of None \<Rightarrow> Succeeded
           | Some n \<Rightarrow> if n = 0 then Succeeded else NonZeroExit n sig o2)"
  by (simp add: spawnCloseOutcome_def Let_def split: option.splits)

lemma kindOf_settle:
  "map_option kindOf (settle r p) = (case p of None \<Rightarrow> Some (kindOf r) | Some q \<Rightarrow> Some (kindOf q))"
  by (cases p) simp_all

lemma spawn_kind_step:
  assumes "map_option kindOf (promise st) = map_option kindOf (promise st')"
    and "isCancellationRequested st = isCancellationRequested st'"
  shows "map_option kindOf (promise (spawnStep c o1 o2 t st ev)) =
         map_option kindOf (promise (spawnStep c o1 o2 t st' ev)) \<and>
         isCancellationRequested (spawnStep c o1 o2 t st ev) =
         isCancellationRequested (spawnStep c o1 o2 t st' ev)"
proof (cases ev)
  case (ErrorEvent err)
  with assms show ?thesis
    by (cases "promise st"; cases "promise st'") simp_all
next
  case (CloseEvent code sig)
  with assms show ?thesis
    by (cases "promise st"; cases "promise st'") (simp_all add: kindOf_spawnCloseOutcome)
qed (use assms in simp_all)

lemma spawn_kind_run:
  assumes "map_option kindOf (promise st) = map_option kindOf (promise st')"
    and "isCancellationRequested st = isCancellationRequested st'"
  shows "map_option kindOf (promise (foldl (spawnStep c o1 o2 t) st evs)) =
         map_option kindOf (promise (foldl (spawnStep c o1 o2 t) st' evs))"
  using assms
proof (induction evs arbitrary: st st')
  case Nil
  then show ?case by simp
next
  case (Cons ev evs)
  have step: "map_option kindOf (promise (spawnStep c o1 o2 t st ev)) =
         map_option kindOf (promise (spawnStep c o1 o2 t st' ev))"
    "isCancellationRequested (spawnStep c o1 o2 t st ev) =
         isCancellationRequested (spawnStep c o1 o2 t st' ev)"
    using spawn_kind_step[OF Cons.prems, of c o1 o2 t ev] by blast+
  from Cons.IH[OF step] show ?case
    by simp
qed

lemma captured_props:
  "take (min (length b) (length text)) (captured b text) = take (length b) text"
  "drop (min (length b) (length text)) (captured b text) = drop (length text) b"
  by (simp_all add: captured_def min_def)

section \<open>The output normalizer\<close>

lemma isControl_LF [simp]: "\<not> isControl LF"
  by (simp add: isControl_def)

lemma isControl_CR [simp]: "\<not> isControl CR"
  by (simp add: isControl_def)

lemma isControl_TAB [simp]: "isControl TAB"
  by (simp add: isControl_def)

lemma isControl_ranges:
  "isControl c \<longleftrightarrow> (of_char c :: nat) \<in> {0x00..0x09} \<union> {0x0B..0x0C} \<union> {0x0E..0x1F}"
  by (auto simp: isControl_def Let_def)

lemma replaceControl_no_LF_end:
  "s = [] \<or> last s \<noteq> LF \<Longrightarrow> replaceControl s = filter (\<lambda>c. \<not> isControl c) s"
  by (induction s) (auto split: if_splits)

lemma replaceControl_CRLF:
  "replaceControl (p @ [CR, LF]) = filter (\<lambda>c. \<not> isControl c) p"
  by (induction p) auto

lemma replaceControl_LF:
  "p = [] \<or> last p \<noteq> CR \<Longrightarrow> replaceControl (p @ [LF]) = filter (\<lambda>c. \<not> isControl c) p"
  by (induction p) (auto split: if_splits)

text \<open>
  Claim C3, as the code has it. \<^verbatim>\<open>bufferToString\<close> removes the characters with codes
  0x00-0x09, 0x0B-0x0C and 0x0E-0x1F. The horizontal tab (0x09) is among them and is
  removed; the newline (0x0A) and the carriage return (0x0D) are not and are kept. One
  line terminator, a newline or a carriage return and a newline, is removed when it is
  the very end of the text; everything before it, interior newlines included, is only
  filtered. A text that does not end in a newline is only filtered.
\<close>

theorem bufferToString_normalizes:
  "(isControl c \<longleftrightarrow> (of_char c :: nat) \<in> {0x00..0x09} \<union> {0x0B..0x0C} \<union> {0x0E..0x1F}) \<and>
   isControl TAB \<and> \<not> isControl LF \<and> \<not> isControl CR \<and>
   bufferToString (p @ [CR, LF]) = filter (\<lambda>c. \<not> isControl c) p \<and>
   (p = [] \<or> last p \<noteq> CR \<longrightarrow>
      bufferToString (p @ [LF]) = filter (\<lambda>c. \<not> isControl c) p) \<and>
   (s = [] \<or> last s \<noteq> LF \<longrightarrow> bufferToString s = filter (\<lambda>c. \<not> isControl c) s)"
proof -
  have ranges: "isControl c \<longleftrightarrow> (of_char c :: nat) \<in> {0x00..0x09} \<union> {0x0B..0x0C} \<union> {0x0E..0x1F}"
    by (rule isControl_ranges)
  have crlf: "bufferToString (p @ [CR, LF]) = filter (\<lambda>c. \<not> isControl c) p"
    by (simp add: bufferToString_def replaceControl_CRLF)
  have lf: "p = [] \<or> last p \<noteq> CR \<longrightarrow>
      bufferToString (p @ [LF]) = filter (\<lambda>c. \<not> isControl c) p"
    by (simp add: bufferToString_def replaceControl_LF)
  have none: "s = [] \<or> last s \<noteq> LF \<longrightarrow> bufferToString s = filter (\<lambda>c. \<not> isControl c) s"
    by (simp add: bufferToString_def replaceControl_no_LF_end)
  from ranges crlf lf none show ?thesis
    using isControl_TAB isControl_LF isControl_CR by blast
qed

theorem bufferToString_normalizes_witness:
  "bufferToString [CHR ''a'', CHR 0x07, LF, CHR ''b'', CR, LF] = [CHR ''a'', LF, CHR ''b''] \<and>
   bufferToString [CHR ''a'', LF, LF] = [CHR ''a'', LF] \<and>
   bufferToString [CHR ''a'', CR, CHR 0x1B, CHR ''b''] = [CHR ''a'', CR, CHR ''b'']"
  using bufferToString_normalizes [of undefined "[CHR ''a'', CHR 0x07, LF, CHR ''b'']" "[]"]
    bufferToString_normalizes [of undefined "[CHR ''a'', LF]" "[CHR ''a'', CR, CHR 0x1B, CHR ''b'']"]
  by (simp add: isControl_def)

text \<open>
  Claim C3 as stated excepts the horizontal tab from the removal and counts the carriage
  return among the removed characters. The code removes the tab between two letters and
  keeps the carriage return between two letters.
\<close>

theorem bufferToString_tab_counterexample:
  "bufferToString [CHR ''a'', TAB, CHR ''b''] = [CHR ''a'', CHR ''b''] \<and>
   bufferToString [CHR ''a'', CR, CHR ''b''] = [CHR ''a'', CR, CHR ''b'']"
  by (simp add: bufferToString_def isControl_def)

section \<open>Completion\<close>

text \<open>
  Claim C1, as the code has it. When the promise is still pending at a \<^verbatim>\<open>'close'\<close> event
  (no \<^verbatim>\<open>'error'\<close> or \<^verbatim>\<open>'close'\<close> event was delivered before it) and the supplied token's
  cancellation was requested by then, \<^verbatim>\<open>spawnAsync\<close> and \<^verbatim>\<open>spawnStreamAsync\<close> both reject with
  \<^verbatim>\<open>UserCancelledError\<close>, whatever exit code and signal the event carries and whatever
  follows it. After an \<^verbatim>\<open>'error'\<close> event the promise is settled with the error of that event,
  and the \<^verbatim>\<open>'close'\<close> event no longer changes it.
\<close>

theorem cancellation_overrides_exit_code:
  assumes "\<forall>ev \<in> set pre. \<not> isTerminal ev"
    and "cancellationRequestedBy token pre"
  shows "promise (spawnAsync command onStdout stdoutBuf onStderr stderrBuf token
                    (pre @ CloseEvent code signal # post)) = Some (Rejected UserCancelledError) \<and>
         promise (spawnStreamAsync command onStdout onStderr token
                    (pre @ CloseEvent code signal # post)) = Some (Rejected UserCancelledError)"
  using assms(2) cancelled_token[OF assms(2)]
  by (simp add: spawnAsync_close[OF assms(1)] spawnStreamAsync_close[OF assms(1)]
      spawnCloseOutcome_def streamCloseOutcome_def spawnAsync_flag spawnStreamAsync_flag)

theorem cancellation_overrides_exit_code_witness:
  "promise (spawnAsync ''sleep 60'' True None False None (Some False)
              ([StdoutData ''tick'', CancellationRequested] @ CloseEvent (Some 1) (Some ''SIGTERM'') # [])
            :: unit spawn_state) = Some (Rejected UserCancelledError) \<and>
   promise (spawnStreamAsync ''sleep 60'' True False (Some False)
              ([StdoutData ''tick'', CancellationRequested] @ CloseEvent (Some 1) (Some ''SIGTERM'') # [])
            :: unit stream_state) = Some (Rejected UserCancelledError)"
  using cancellation_overrides_exit_code
    [where pre = "[StdoutData ''tick'', CancellationRequested] :: unit event list"
       and token = "Some False" and command = "''sleep 60''" and onStdout = True
       and stdoutBuf = None and onStderr = False and stderrBuf = None
       and code = "Some 1" and signal = "Some ''SIGTERM''" and post = "[]"]
  by (simp add: cancellationRequestedBy_def)

text \<open>
  Claim C1 as stated has every \<^verbatim>\<open>'close'\<close> event with cancellation requested end in
  \<^verbatim>\<open>UserCancelledError\<close>. A process that fails to start emits \<^verbatim>\<open>'error'\<close> and then \<^verbatim>\<open>'close'\<close>
  with the code -2. With cancellation requested before both, the \<^verbatim>\<open>'error'\<close> handler rejects
  first (lines 47 and 150), and the promise of both functions holds the error of the
  \<^verbatim>\<open>'error'\<close> event after the \<^verbatim>\<open>'close'\<close>.
\<close>

theorem cancellation_after_error_counterexample:
  "cancellationRequestedBy (Some False) [CancellationRequested, ErrorEvent ''ENOENT''] \<and>
   promise (spawnAsync ''nosuch'' False None False None (Some False)
      [CancellationRequested, ErrorEvent ''ENOENT'', CloseEvent (Some (-2)) None]) =
     Some (Rejected (PlatformError ''ENOENT'')) \<and>
   promise (spawnStreamAsync ''nosuch'' False False (Some False)
      [CancellationRequested, ErrorEvent ''ENOENT'', CloseEvent (Some (-2)) None]) =
     Some (Rejected (PlatformError ''ENOENT''))"
  by (simp add: spawnAsync_def spawnStreamAsync_def cancellationRequestedBy_def)

text \<open>
  Claim C2, as the code has it. When the promise is still pending at a \<^verbatim>\<open>'close'\<close> event (no
  \<^verbatim>\<open>'error'\<close> or \<^verbatim>\<open>'close'\<close> event was delivered before it), the event has an exit code \<open>n\<close>
  other than 0, and no cancellation was requested, \<^verbatim>\<open>spawnAsync\<close> rejects with an error that
  carries \<open>n\<close> and the signal of the event. Its message is
  \<^verbatim>\<open>Process '<command>' exited with code <n>\<close>, with the command itself when it has at most
  50 characters and its first 50 characters followed by \<^verbatim>\<open>...\<close> otherwise; when a stderr
  buffer was supplied, \<^verbatim>\<open>\nError: \<close> and the normalized contents of that buffer follow,
  which hold the stderr chunks received. After an \<^verbatim>\<open>'error'\<close> event the promise is settled
  with the error of that event, and the \<^verbatim>\<open>'close'\<close> event no longer changes it.
\<close>

theorem nonzero_exit_rejects_with_exec_error:
  assumes "\<forall>ev \<in> set pre. \<not> isTerminal ev"
    and "\<not> cancellationRequestedBy token pre"
    and "n \<noteq> 0"
  shows "promise (spawnAsync command onStdout stdoutBuf onStderr stderrBuf token
                    (pre @ CloseEvent (Some n) signal # post)) =
         Some (Rejected (ExecError
           (''Process '' @ [CHR 0x27] @
            (if length command > 50 then take 50 command @ ''...'' else command) @
            [CHR 0x27] @ '' exited with code '' @ numberToString n @
            (case stderrBuf of
               None \<Rightarrow> []
             | Some buf \<Rightarrow> LF # ''Error: '' @ bufferToString (captured buf (concat (stderrChunks pre)))))
           n signal onStderr))"
  using assms(2,3)
  by (cases stderrBuf)
     (simp_all add: spawnAsync_close[OF assms(1)] spawnCloseOutcome_def spawnAsync_flag
      spawnAsync_stderrBuffer exitedMessage_eq exitedErrorMessage_eq commandText_def Let_def)

theorem nonzero_exit_rejects_with_exec_error_witness:
  "promise (spawnAsync ''ls /nope'' False None True (Some ''0000'') None
              ([StderrData ''no'', StderrData '' such''] @ CloseEvent (Some 2) None # [])
            :: unit spawn_state) =
     Some (Rejected (ExecError (''Process 'ls /nope' exited with code 2'' @ LF # ''Error: no s'')
        2 None True))"
  using nonzero_exit_rejects_with_exec_error
    [where pre = "[StderrData ''no'', StderrData '' such''] :: unit event list"
       and token = "None" and command = "''ls /nope''" and onStdout = False
       and stdoutBuf = None and onStderr = True and stderrBuf = "Some ''0000''"
       and n = 2 and signal = None and post = "[]"]
  by (simp add: cancellationRequestedBy_def stderrChunks_def captured_def bufferToString_def
      isControl_def numberToString_def digitsOf.simps)

text \<open>
  Claim C2 as stated has every \<^verbatim>\<open>'close'\<close> event with a non-zero exit code and no
  cancellation end in an error that carries the code. A process that fails to start
  emits \<^verbatim>\<open>'error'\<close> and then \<^verbatim>\<open>'close'\<close> with the code -2; no token was supplied. The
  \<^verbatim>\<open>'error'\<close> handler rejects first (line 47), and the promise holds the error of the
  \<^verbatim>\<open>'error'\<close> event, which carries neither the code -2 nor the command.
\<close>

theorem nonzero_exit_after_error_counterexample:
  "\<not> cancellationRequestedBy None [ErrorEvent ''ENOENT''] \<and>
   promise (spawnAsync ''nosuch'' False None False None None
      [ErrorEvent ''ENOENT'', CloseEvent (Some (-2)) None]) =
     Some (Rejected (PlatformError ''ENOENT''))"
  by (simp add: spawnAsync_def cancellationRequestedBy_def)

text \<open>
  Claim C4. After any events, each buffer supplied to \<^verbatim>\<open>spawnAsync\<close> holds the text of its
  stream cut at the capacity of the buffer, followed by what the buffer held before
  behind that text. The cursor is the number of bytes written, the smaller of the
  capacity and the length of the text, so it never exceeds the capacity. The length of
  the buffer is unchanged, no write throws, and the kind of the outcome (success,
  cancellation, non-zero exit with its code, signal and flag, launch error) is the one
  of the same run with any other buffers \<open>stdoutBuf'\<close> and \<open>stderrBuf'\<close>.
\<close>

theorem bounded_sink_truncates_silently:
  "stdoutBuffer (spawnAsync command onStdout stdoutBuf onStderr stderrBuf token events) =
     map_option (\<lambda>b. captured b (concat (stdoutChunks events))) stdoutBuf \<and>
   stdoutBytesWritten (spawnAsync command onStdout stdoutBuf onStderr stderrBuf token events) =
     (case stdoutBuf of None \<Rightarrow> 0
      | Some b \<Rightarrow> min (length b) (length (concat (stdoutChunks events)))) \<and>
   stderrBuffer (spawnAsync command onStdout stdoutBuf onStderr stderrBuf token events) =
     map_option (\<lambda>b. captured b (concat (stderrChunks events))) stderrBuf \<and>
   stderrBytesWritten (spawnAsync command onStdout stdoutBuf onStderr stderrBuf token events) =
     (case stderrBuf of None \<Rightarrow> 0
      | Some b \<Rightarrow> min (length b) (length (concat (stderrChunks events)))) \<and>
   \<not> uncaughtException (spawnAsync command onStdout stdoutBuf onStderr stderrBuf token events) \<and>
   length (captured buf out) = length buf \<and>
   take (min (length buf) (length out)) (captured buf out) = take (length buf) out \<and>
   drop (min (length buf) (length out)) (captured buf out) = drop (length out) buf \<and>
   map_option kindOf (promise (spawnAsync command onStdout stdoutBuf onStderr stderrBuf token events)) =
     map_option kindOf (promise (spawnAsync command onStdout stdoutBuf' onStderr stderrBuf' token events))"
proof -
  have kinds: "map_option kindOf (promise (spawnAsync command onStdout stdoutBuf onStderr stderrBuf token events)) =
     map_option kindOf (promise (spawnAsync command onStdout stdoutBuf' onStderr stderrBuf' token events))"
    unfolding spawnAsync_def by (rule spawn_kind_run) simp_all
  from spawnAsync_buffers[of stdoutBuf stderrBuf events command onStdout onStderr token] kinds
  show ?thesis
    by (simp add: capturedState_def captured_props)
qed

theorem bounded_sink_truncates_silently_witness:
  "stdoutBuffer (spawnAsync ''yes'' False (Some ''0000'') False None None
      [StdoutData ''ab'', StdoutData ''cde'', CloseEvent (Some 0) None] :: unit spawn_state) = Some ''abcd'' \<and>
   stdoutBytesWritten (spawnAsync ''yes'' False (Some ''0000'') False None None
      [StdoutData ''ab'', StdoutData ''cde'', CloseEvent (Some 0) None] :: unit spawn_state) = 4 \<and>
   \<not> uncaughtException (spawnAsync ''yes'' False (Some ''0000'') False None None
      [StdoutData ''ab'', StdoutData ''cde'', CloseEvent (Some 0) None] :: unit spawn_state) \<and>
   map_option kindOf (promise (spawnAsync ''yes'' False (Some ''0000'') False None None
      [StdoutData ''ab'', StdoutData ''cde'', CloseEvent (Some 0) None] :: unit spawn_state)) =
   map_option kindOf (promise (spawnAsync ''yes'' False (Some ''0000000000'') False None None
      [StdoutData ''ab'', StdoutData ''cde'', CloseEvent (Some 0) None] :: unit spawn_state))"
  using bounded_sink_truncates_silently
    [where events = "[StdoutData ''ab'', StdoutData ''cde'', CloseEvent (Some 0) None] :: unit event list"
       and token = "None" and command = "''yes''" and onStdout = False
       and stdoutBuf = "Some ''0000''" and onStderr = False and stderrBuf = None
       and stdoutBuf' = "Some ''0000000000''" and stderrBuf' = None and buf = "[]" and out = "[]"]
  by (simp add: stdoutChunks_def captured_def)

text \<open>
  Claim C5, as the code has it. With a token supplied, \<^verbatim>\<open>dispose\<close> of the cancellation
  listener is called once by every \<^verbatim>\<open>'error'\<close> event and once by every \<^verbatim>\<open>'close'\<close> event
  handled: its calls number the terminal events of the run, so exactly one when exactly
  one of the two events fires. Without a token it is never called.
\<close>

theorem dispose_once_per_terminal_event:
  "disposeCalls (spawnAsync command onStdout stdoutBuf onStderr stderrBuf token events) =
     (if token = None then 0 else length (filter isTerminal events)) \<and>
   disposeCalls (spawnStreamAsync command onStdout onStderr token events) =
     (if token = None then 0 else length (filter isTerminal events))"
  by (simp add: spawnAsync_def spawnStreamAsync_def spawn_dispose stream_dispose)

theorem dispose_once_per_terminal_event_witness:
  "disposeCalls (spawnAsync ''ls'' False None False None (Some False)
      [StdoutData ''x'', CloseEvent (Some 0) None] :: unit spawn_state) = 1 \<and>
   disposeCalls (spawnAsync ''ls'' False None False None (Some False)
      [StderrData ''x'', CloseEvent (Some 2) None] :: unit spawn_state) = 1 \<and>
   disposeCalls (spawnAsync ''ls'' False None False None (Some False)
      [CancellationRequested, CloseEvent None (Some ''SIGTERM'')] :: unit spawn_state) = 1 \<and>
   disposeCalls (spawnAsync ''ls'' False None False None (Some False)
      [ErrorEvent ()] :: unit spawn_state) = 1 \<and>
   disposeCalls (spawnStreamAsync ''ls'' False False (Some False)
      [StdoutData ''x'', CloseEvent (Some 0) None] :: unit stream_state) = 1"
  using dispose_once_per_terminal_event
    [where events = "[StdoutData ''x'', CloseEvent (Some 0) None] :: unit event list"
       and token = "Some False" and command = "''ls''" and onStdout = False
       and stdoutBuf = None and onStderr = False and stderrBuf = None]
    dispose_once_per_terminal_event
    [where events = "[StderrData ''x'', CloseEvent (Some 2) None] :: unit event list"
       and token = "Some False" and command = "''ls''" and onStdout = False
       and stdoutBuf = None and onStderr = False and stderrBuf = None]
    dispose_once_per_terminal_event
    [where events = "[CancellationRequested, CloseEvent None (Some ''SIGTERM'')] :: unit event list"
       and token = "Some False" and command = "''ls''" and onStdout = False
       and stdoutBuf = None and onStderr = False and stderrBuf = None]
    dispose_once_per_terminal_event
    [where events = "[ErrorEvent ()] :: unit event list"
       and token = "Some False" and command = "''ls''" and onStdout = False
       and stdoutBuf = None and onStderr = False and stderrBuf = None]
  by simp

text \<open>
  Claim C5 as stated has the listener disposed exactly once whichever of the two events
  fire. A process that fails to start emits \<^verbatim>\<open>'error'\<close> and then \<^verbatim>\<open>'close'\<close>; both handlers
  call \<^verbatim>\<open>dispose\<close>, twice in all.
\<close>

theorem dispose_twice_counterexample:
  "disposeCalls (spawnAsync ''nosuch'' False None False None (Some False)
      [ErrorEvent ''ENOENT'', CloseEvent (Some (-2)) None]) = 2 \<and>
   disposeCalls (spawnStreamAsync ''nosuch'' False False (Some False)
      [ErrorEvent ''ENOENT'', CloseEvent (Some (-2)) None]) = 2"
  by (simp add: spawnAsync_def spawnStreamAsync_def)

text \<open>
  Claim C7, as the code has it. On a non-zero exit without cancellation the error of
  \<^verbatim>\<open>spawnAsync\<close> carries \<^verbatim>\<open>stdErrHandled\<close> equal to whether the caller supplied \<^verbatim>\<open>onStderr\<close>;
  the error of \<^verbatim>\<open>spawnStreamAsync\<close> carries \<^verbatim>\<open>stdErrHandled = false\<close> whether or not the
  caller supplied \<^verbatim>\<open>onStderr\<close>.
\<close>

theorem stdErrHandled_flag:
  assumes "\<forall>ev \<in> set pre. \<not> isTerminal ev"
    and "\<not> cancellationRequestedBy token pre"
    and "n \<noteq> 0"
  shows "map_option kindOf (promise (spawnAsync command onStdout stdoutBuf onStderr stderrBuf token
                    (pre @ CloseEvent (Some n) signal # post))) = Some (NonZeroExit n signal onStderr) \<and>
         map_option kindOf (promise (spawnStreamAsync command onStdout onStderr token
                    (pre @ CloseEvent (Some n) signal # post))) = Some (NonZeroExit n signal False)"
  using assms(2,3)
  by (simp add: spawnAsync_close[OF assms(1)] spawnStreamAsync_close[OF assms(1)]
      spawnCloseOutcome_def streamCloseOutcome_def spawnAsync_flag spawnStreamAsync_flag Let_def)

theorem stdErrHandled_flag_witness:
  "map_option kindOf (promise (spawnAsync ''false'' False None True None None
              ([] @ CloseEvent (Some 1) None # []) :: unit spawn_state)) =
     Some (NonZeroExit 1 None True) \<and>
   map_option kindOf (promise (spawnStreamAsync ''false'' False True None
              ([] @ CloseEvent (Some 1) None # []) :: unit stream_state)) =
     Some (NonZeroExit 1 None False)"
  using stdErrHandled_flag
    [where pre = "[] :: unit event list"
       and token = "None" and command = "''false''" and onStdout = False
       and stdoutBuf = None and onStderr = True and stderrBuf = None
       and n = 1 and signal = None and post = "[]"]
  by (simp add: cancellationRequestedBy_def)

text \<open>
  Claim C7 as stated gives the flag of every non-zero exit the value of "the caller
  supplied a stderr handler". \<^verbatim>\<open>spawnStreamAsync\<close> called with \<^verbatim>\<open>onStderr\<close> supplied, its
  process closing with code 1, rejects with \<^verbatim>\<open>stdErrHandled = false\<close>.
\<close>

theorem stream_stdErrHandled_counterexample:
  "map_option kindOf (promise (spawnStreamAsync ''false'' False True None
      [CloseEvent (Some 1) None] :: unit stream_state)) = Some (NonZeroExit 1 None False)"
  by (simp add: spawnStreamAsync_def streamCloseOutcome_def Let_def)

text \<open>
  Claim C8, as the code has it. \<^verbatim>\<open>spawnStreamAsync\<close> listens to stderr only when the caller
  supplied \<^verbatim>\<open>onStderr\<close>: then \<^verbatim>\<open>errorChunks\<close> holds the stderr chunks in the order of their
  arrival, otherwise it stays empty. On a non-zero exit without cancellation the message
  of the error ends with \<^verbatim>\<open>\nError: \<close> and the normalized concatenation of those chunks.
\<close>

theorem errorChunks_accumulate_with_callback:
  "errorChunks (spawnStreamAsync command onStdout onStderr token events) =
     (if onStderr then stderrChunks events else []) \<and>
   ((\<forall>ev \<in> set pre. \<not> isTerminal ev) \<and> \<not> cancellationRequestedBy token pre \<and> n \<noteq> 0 \<longrightarrow>
    promise (spawnStreamAsync command onStdout onStderr token (pre @ CloseEvent (Some n) signal # post)) =
      Some (Rejected (ExecError
        (''Process '' @ [CHR 0x27] @
         (if length command > 50 then take 50 command @ ''...'' else command) @
         [CHR 0x27] @ '' exited with code '' @ numberToString n @
         LF # ''Error: '' @ bufferToString (concat (if onStderr then stderrChunks pre else [])))
        n signal False)))"
proof (intro conjI impI)
  show "errorChunks (spawnStreamAsync command onStdout onStderr token events) =
     (if onStderr then stderrChunks events else [])"
    by (rule spawnStreamAsync_errorChunks)
next
  assume a: "(\<forall>ev \<in> set pre. \<not> isTerminal ev) \<and> \<not> cancellationRequestedBy token pre \<and> n \<noteq> 0"
  then have p: "\<forall>ev \<in> set pre. \<not> isTerminal ev" by simp
  from a show "promise (spawnStreamAsync command onStdout onStderr token (pre @ CloseEvent (Some n) signal # post)) =
      Some (Rejected (ExecError
        (''Process '' @ [CHR 0x27] @
         (if length command > 50 then take 50 command @ ''...'' else command) @
         [CHR 0x27] @ '' exited with code '' @ numberToString n @
         LF # ''Error: '' @ bufferToString (concat (if onStderr then stderrChunks pre else [])))
        n signal False))"
    by (simp add: spawnStreamAsync_close[OF p] streamCloseOutcome_def spawnStreamAsync_flag
        spawnStreamAsync_errorChunks exitedMessage_eq exitedErrorMessage_eq commandText_def Let_def)
qed

theorem errorChunks_accumulate_with_callback_witness:
  "errorChunks (spawnStreamAsync ''make'' False True None
      [StderrData ''a'', StdoutData ''x'', StderrData ''b''] :: unit stream_state) = [''a'', ''b''] \<and>
   promise (spawnStreamAsync ''make'' False True None
      ([StderrData ''a'', StdoutData ''x'', StderrData ''b''] @ CloseEvent (Some 2) None # [])
      :: unit stream_state) =
     Some (Rejected (ExecError (''Process 'make' exited with code 2'' @ LF # ''Error: ab'') 2 None False))"
  using errorChunks_accumulate_with_callback
    [where pre = "[StderrData ''a'', StdoutData ''x'', StderrData ''b''] :: unit event list"
       and events = "[StderrData ''a'', StdoutData ''x'', StderrData ''b''] :: unit event list"
       and token = "None" and command = "''make''" and onStdout = False
       and onStderr = True and n = 2 and signal = None and post = "[]"]
  by (simp add: cancellationRequestedBy_def stderrChunks_def bufferToString_def
      isControl_def numberToString_def digitsOf.simps)

text \<open>
  Claim C8 as stated has the stderr chunks accumulated whether or not the caller supplied
  a stderr callback. \<^verbatim>\<open>spawnStreamAsync\<close> called without \<^verbatim>\<open>onStderr\<close>, its process writing
  \<^verbatim>\<open>boom\<close> to stderr and closing with code 2, has no chunk in \<^verbatim>\<open>errorChunks\<close>, and the message
  of its error ends with \<^verbatim>\<open>Error: \<close> and no text.
\<close>

theorem errorChunks_without_callback_counterexample:
  "errorChunks (spawnStreamAsync ''make'' False False None
      [StderrData ''boom'', CloseEvent (Some 2) None] :: unit stream_state) = [] \<and>
   promise (spawnStreamAsync ''make'' False False None
      [StderrData ''boom'', CloseEvent (Some 2) None] :: unit stream_state) =
     Some (Rejected (ExecError (''Process 'make' exited with code 2'' @ LF # ''Error: '') 2 None False))"
  by (simp add: spawnStreamAsync_def streamCloseOutcome_def Let_def exitedMessage_eq
      exitedErrorMessage_eq commandText_def bufferToString_def numberToString_def digitsOf.simps)

text \<open>
  Claim C9. When the promise is pending at an \<^verbatim>\<open>'error'\<close> event, both functions reject with
  the error of the event itself, whether or not cancellation was requested and whatever
  follows. No handler starts the process again.
\<close>

theorem launch_error_propagates_unchanged:
  assumes "\<forall>ev \<in> set pre. \<not> isTerminal ev"
  shows "promise (spawnAsync command onStdout stdoutBuf onStderr stderrBuf token
                    (pre @ ErrorEvent err # post)) = Some (Rejected (PlatformError err)) \<and>
         promise (spawnStreamAsync command onStdout onStderr token
                    (pre @ ErrorEvent err # post)) = Some (Rejected (PlatformError err))"
  by (simp add: spawnAsync_error[OF assms] spawnStreamAsync_error[OF assms])

theorem launch_error_propagates_unchanged_witness:
  "promise (spawnAsync ''nosuch'' False None False None (Some False)
              ([CancellationRequested] @ ErrorEvent ''ENOENT'' # [CloseEvent (Some (-2)) None])) =
     Some (Rejected (PlatformError ''ENOENT'')) \<and>
   promise (spawnStreamAsync ''nosuch'' False False (Some False)
              ([CancellationRequested] @ ErrorEvent ''ENOENT'' # [CloseEvent (Some (-2)) None])) =
     Some (Rejected (PlatformError ''ENOENT''))"
  using launch_error_propagates_unchanged
    [where pre = "[CancellationRequested] :: string event list"
       and token = "Some False" and command = "''nosuch''" and onStdout = False
       and stdoutBuf = None and onStderr = False and stderrBuf = None
       and err = "''ENOENT''" and post = "[CloseEvent (Some (-2)) None]"]
  by simp



section \<open>The fix of the path\<close>

lemma target_no_colon: "map canonicalize seg = map canonicalize ''/usr/local/bin'' \<Longrightarrow> CHR '':'' \<notin> set seg"
proof
  assume a: "map canonicalize seg = map canonicalize ''/usr/local/bin''" and b: "CHR '':'' \<in> set seg"
  from b have "canonicalize CHR '':'' \<in> set (map canonicalize seg)" by (simp add: image_iff) blast
  with a show False by (simp add: canonicalize_def)
qed

lemma target_length: "map canonicalize seg = map canonicalize ''/usr/local/bin'' \<Longrightarrow> length seg = 14"
proof -
  assume a: "map canonicalize seg = map canonicalize ''/usr/local/bin''"
  then have "length (map canonicalize seg) = length (map canonicalize ''/usr/local/bin'')" by simp
  then show ?thesis by simp
qed

lemma splitColon_nonempty [simp]: "splitColon s \<noteq> []"
  by (induction s) (auto split: list.splits)

lemma hd_splitColon: "hd (splitColon s) = takeWhile (\<lambda>c. c \<noteq> CHR '':'') s"
  by (induction s) (auto split: list.splits)

lemma empty_or_hd:
  "xs = [] \<or> hd xs = c \<Longrightarrow> (case xs of [] \<Rightarrow> True | y # ys \<Rightarrow> y = c)"
  by (cases xs) simp_all

lemma matchHere_iff: "matchHere s \<longleftrightarrow> map canonicalize (takeWhile (\<lambda>c. c \<noteq> CHR '':'') s) = map canonicalize ''/usr/local/bin''"
proof
  assume m: "matchHere s"
  then have t: "map canonicalize (take 14 s) = map canonicalize ''/usr/local/bin''"
    and d: "drop 14 s = [] \<or> hd (drop 14 s) = CHR '':''"
    by (auto simp: matchHere_def split: list.splits)
  from target_no_colon[OF t] have nc: "\<forall>c \<in> set (take 14 s). c \<noteq> CHR '':''" by auto
  have "takeWhile (\<lambda>c. c \<noteq> CHR '':'') s = takeWhile (\<lambda>c. c \<noteq> CHR '':'') (take 14 s @ drop 14 s)"
    by simp
  also have "\<dots> = take 14 s @ takeWhile (\<lambda>c. c \<noteq> CHR '':'') (drop 14 s)"
    by (rule takeWhile_append2) (use nc in auto)
  also have "takeWhile (\<lambda>c. c \<noteq> CHR '':'') (drop 14 s) = []"
    using d by (cases "drop 14 s") auto
  finally show "map canonicalize (takeWhile (\<lambda>c. c \<noteq> CHR '':'') s) = map canonicalize ''/usr/local/bin''"
    using t by simp
next
  let ?p = "\<lambda>c. c \<noteq> CHR '':''"
  assume a: "map canonicalize (takeWhile ?p s) = map canonicalize ''/usr/local/bin''"
  from target_length[OF a] have len: "length (takeWhile ?p s) = 14" .
  have s: "s = takeWhile ?p s @ dropWhile ?p s" by simp
  have tk: "take 14 s = takeWhile ?p s"
    using len by (metis s append_eq_conv_conj)
  have dr: "drop 14 s = dropWhile ?p s"
    using len by (metis s append_eq_conv_conj)
  have hd: "dropWhile ?p s = [] \<or> hd (dropWhile ?p s) = CHR '':''"
    using hd_dropWhile[of ?p s] by auto
  have c1: "map canonicalize (take 14 s) = map canonicalize ''/usr/local/bin''"
    by (simp only: tk a)
  have c2: "(case drop 14 s of [] \<Rightarrow> True | c # x \<Rightarrow> c = CHR '':'')"
    unfolding dr by (rule empty_or_hd[OF hd])
  from c1 c2 show "matchHere s"
    unfolding matchHere_def by (rule conjI)
qed

lemma searchFrom_iff:
  "searchFrom lb s \<longleftrightarrow>
     (\<exists>seg \<in> set (if lb then splitColon s else tl (splitColon s)).
        map canonicalize seg = map canonicalize ''/usr/local/bin'')"
proof (induction s arbitrary: lb)
  case Nil
  then show ?case by simp
next
  case (Cons c cs)
  have mh: "matchHere (c # cs) \<longleftrightarrow>
      map canonicalize (hd (splitColon (c # cs))) = map canonicalize ''/usr/local/bin''"
    by (simp only: matchHere_iff hd_splitColon)
  show ?case
  proof (cases "c = CHR '':''")
    case True
    with mh have "\<not> matchHere (c # cs)" by simp
    with True Cons.IH[of True] show ?thesis by simp
  next
    case False
    obtain seg segs where sp: "splitColon cs = seg # segs"
      using splitColon_nonempty[of cs] by (cases "splitColon cs") auto
    with False mh Cons.IH[of False] show ?thesis by auto
  qed
qed

lemma pathRegexTest_segments: "pathRegexTest path = hasUsrLocalBinSegment path"
  by (simp add: pathRegexTest_def hasUsrLocalBinSegment_def searchFrom_iff)

lemma format_no_args: "format s [] = s"
  by (induction s "[] :: string list" rule: format.induct) simp_all

lemma fixedPath_warning:
  "localize key message [] = message"
  by (simp add: localize_def format_no_args)

lemma fix_unmodified:
  "isWindows \<or> pathRegexTest (effectivePath options w) \<Longrightarrow>
   fixPathForMacIfNeeded isWindows options w = (options, w)"
  by (auto simp: fixPathForMacIfNeeded_def)

lemma fix_cloned:
  assumes "\<not> isWindows" "\<not> pathRegexTest (effectivePath options w)" "env options = None"
  shows "fixPathForMacIfNeeded isWindows options w =
    (options\<lparr>env := Some (nextObject w)\<rparr>,
     w\<lparr>envObjects := (envObjects w)(nextObject w :=
                (envObjects w processEnv)(''PATH'' \<mapsto>
                   jsToString (envObjects w processEnv ''PATH'') @ '':/usr/local/bin'')),
       nextObject := nextObject w + 1,
       outputChannel := outputChannel w @
         [''WARNING: Adding '/usr/local/bin' to the PATH because it is missing.'']\<rparr>)"
  using assms by (simp add: fixPathForMacIfNeeded_def Let_def fixedPath_warning)

lemma fix_in_place:
  assumes "\<not> isWindows" "\<not> pathRegexTest (effectivePath options w)" "env options = Some a"
  shows "fixPathForMacIfNeeded isWindows options w =
    (options,
     w\<lparr>envObjects := (envObjects w)(a :=
                (envObjects w a)(''PATH'' \<mapsto>
                   jsToString (envObjects w a ''PATH'') @ '':/usr/local/bin'')),
       outputChannel := outputChannel w @
         [''WARNING: Adding '/usr/local/bin' to the PATH because it is missing.'']\<rparr>)"
  using assms by (simp add: fixPathForMacIfNeeded_def Let_def fixedPath_warning)

lemma spawnAsyncOptions_shell: "shell (fst (spawnAsyncOptions isWindows options w))"
  by (cases options)
     (auto simp: spawnAsyncOptions_def fixPathForMacIfNeeded_def Let_def split: option.splits)

text \<open>
  Claim C6, as the code has it. On Windows, and when the effective path has
  \<^verbatim>\<open>/usr/local/bin\<close> as a whole segment between colons or the ends of the text, in any case
  of its letters, the options, the environments and the output channel are left as they
  were. Otherwise, when the caller gave no \<^verbatim>\<open>options.env\<close>, the launch environment is a new
  object, a copy of \<^verbatim>\<open>process.env\<close>, and \<^verbatim>\<open>process.env\<close> is left as it was; when the caller gave
  one, the launch environment is the caller's object itself, changed in place, and no
  copy is made. In both cases its \<^verbatim>\<open>PATH\<close> becomes what it held followed by
  \<^verbatim>\<open>:/usr/local/bin\<close>, its other variables stay, and one warning goes to the output channel.
  The test of the pattern is the reading in words: some segment of the path between
  colons is \<^verbatim>\<open>/usr/local/bin\<close> up to case.
\<close>

theorem fixPathForMacIfNeeded_cases:
  "(isWindows \<or> pathRegexTest (effectivePath options w) \<longrightarrow>
      fixPathForMacIfNeeded isWindows options w = (options, w)) \<and>
   (\<not> isWindows \<and> \<not> pathRegexTest (effectivePath options w) \<and> env options = None \<longrightarrow>
      fixPathForMacIfNeeded isWindows options w =
        (options\<lparr>env := Some (nextObject w)\<rparr>,
         w\<lparr>envObjects := (envObjects w)(nextObject w :=
                (envObjects w processEnv)(''PATH'' \<mapsto>
                   jsToString (envObjects w processEnv ''PATH'') @ '':/usr/local/bin'')),
           nextObject := nextObject w + 1,
           outputChannel := outputChannel w @
             [''WARNING: Adding '/usr/local/bin' to the PATH because it is missing.'']\<rparr>)) \<and>
   (\<not> isWindows \<and> \<not> pathRegexTest (effectivePath options w) \<and> env options = Some a \<longrightarrow>
      fixPathForMacIfNeeded isWindows options w =
        (options,
         w\<lparr>envObjects := (envObjects w)(a :=
                (envObjects w a)(''PATH'' \<mapsto>
                   jsToString (envObjects w a ''PATH'') @ '':/usr/local/bin'')),
           outputChannel := outputChannel w @
             [''WARNING: Adding '/usr/local/bin' to the PATH because it is missing.'']\<rparr>)) \<and>
   pathRegexTest path = hasUsrLocalBinSegment path"
  using fix_unmodified[of isWindows options w] fix_cloned[of isWindows options w]
    fix_in_place[of isWindows options w a] pathRegexTest_segments[of path]
  by blast

theorem fixPathForMacIfNeeded_cases_witness:
  "fixPathForMacIfNeeded True \<lparr>env = None, shell = True, stdin = None\<rparr> exampleState =
     (\<lparr>env = None, shell = True, stdin = None\<rparr>, exampleState) \<and>
   env (fst (fixPathForMacIfNeeded False \<lparr>env = None, shell = True, stdin = None\<rparr> exampleState)) =
     Some 2 \<and>
   envObjects (snd (fixPathForMacIfNeeded False \<lparr>env = None, shell = True, stdin = None\<rparr> exampleState))
     2 ''PATH'' = Some ''/bin:/usr/local/bin'' \<and>
   envObjects (snd (fixPathForMacIfNeeded False \<lparr>env = None, shell = True, stdin = None\<rparr> exampleState))
     2 ''HOME'' = Some ''/root'' \<and>
   envObjects (snd (fixPathForMacIfNeeded False \<lparr>env = None, shell = True, stdin = None\<rparr> exampleState))
     0 ''PATH'' = Some ''/bin'' \<and>
   envObjects (snd (fixPathForMacIfNeeded False \<lparr>env = Some 1, shell = True, stdin = None\<rparr> exampleState))
     1 ''PATH'' = Some ''/usr/bin:/usr/local/bin'' \<and>
   pathRegexTest ''/usr/bin:/USR/Local/Bin:/bin'' \<and>
   hasUsrLocalBinSegment ''/usr/bin:/USR/Local/Bin:/bin''"
  using fixPathForMacIfNeeded_cases
      [where isWindows = True and options = "\<lparr>env = None, shell = True, stdin = None\<rparr>"
         and w = exampleState and a = 0 and path = "''/usr/bin:/USR/Local/Bin:/bin''"]
    fixPathForMacIfNeeded_cases
      [where isWindows = False and options = "\<lparr>env = None, shell = True, stdin = None\<rparr>"
         and w = exampleState and a = 0 and path = "''/usr/bin:/USR/Local/Bin:/bin''"]
    fixPathForMacIfNeeded_cases
      [where isWindows = False and options = "\<lparr>env = Some 1, shell = True, stdin = None\<rparr>"
         and w = exampleState and a = 1 and path = "''/usr/bin:/USR/Local/Bin:/bin''"]
  by (simp add: exampleState_def effectivePath_def jsOr_def jsToString_def processEnv_def
      pathRegexTest_def matchHere_def canonicalize_def)

text \<open>
  Claim C6 as stated has the launch environment cloned from the current environment
  whenever the path is fixed. With an environment of the caller's in \<^verbatim>\<open>options.env\<close>, the
  launch environment stays that object: no copy is made, it holds the caller's \<^verbatim>\<open>FOO\<close>
  and not the \<^verbatim>\<open>HOME\<close> of \<^verbatim>\<open>process.env\<close>, and its own \<^verbatim>\<open>PATH\<close> is the one extended.
\<close>

theorem fixPathForMacIfNeeded_clone_counterexample:
  "env (fst (fixPathForMacIfNeeded False \<lparr>env = Some 1, shell = True, stdin = None\<rparr> exampleState)) =
     Some 1 \<and>
   nextObject (snd (fixPathForMacIfNeeded False \<lparr>env = Some 1, shell = True, stdin = None\<rparr> exampleState)) =
     2 \<and>
   envObjects (snd (fixPathForMacIfNeeded False \<lparr>env = Some 1, shell = True, stdin = None\<rparr> exampleState))
     1 ''HOME'' = None \<and>
   envObjects exampleState processEnv ''HOME'' = Some ''/root'' \<and>
   envObjects (snd (fixPathForMacIfNeeded False \<lparr>env = Some 1, shell = True, stdin = None\<rparr> exampleState))
     1 ''FOO'' = Some ''1'' \<and>
   envObjects (snd (fixPathForMacIfNeeded False \<lparr>env = Some 1, shell = True, stdin = None\<rparr> exampleState))
     1 ''PATH'' = Some ''/usr/bin:/usr/local/bin''"
  by (simp add: fixPathForMacIfNeeded_def exampleState_def effectivePath_def jsOr_def
      jsToString_def processEnv_def pathRegexTest_def matchHere_def canonicalize_def Let_def)

end
